theory Spec2Isabelle
  imports Main
begin

section \<open>Strings, runes and UTF-8\<close>

text \<open>
  A Go \<^verbatim>\<open>string\<close> is a sequence of bytes; it is modelled by \<^typ>\<open>string\<close>, whose
  characters are bytes. A rune is a Unicode code point (Go's \<^verbatim>\<open>int32\<close>; every value
  produced here lies between 0 and 0x10FFFF, so \<^typ>\<open>nat\<close> holds it).

  The validation package counts runes with \<^verbatim>\<open>utf8.RuneCountInString\<close> and matches a
  regular expression, which reads its input rune by rune with
  \<^verbatim>\<open>utf8.DecodeRuneInString\<close>. Both belong to Go's standard library; the decoder
  below follows the library's algorithm: the first byte selects the length of the
  encoding and the range accepted for the second byte, and every byte that does not
  start a well-formed encoding is decoded, alone, as \<^verbatim>\<open>RuneError\<close> (U+FFFD).
\<close>

type_synonym rune = nat

definition RuneError :: rune where
  "RuneError = 0xFFFD"

definition locb :: nat where
  "locb = 0x80"

definition hicb :: nat where
  "hicb = 0xBF"

definition byte_at :: "string \<Rightarrow> nat \<Rightarrow> nat" where
  "byte_at s i = of_char (s ! i)"

text \<open>Length of the encoding announced by a leading byte between 0xC2 and 0xF4.\<close>

definition first_size :: "nat \<Rightarrow> nat" where
  "first_size s0 = (if s0 < 0xE0 then 2 else if s0 < 0xF0 then 3 else 4)"

text \<open>Range accepted for the second byte (the library's \<^verbatim>\<open>acceptRanges\<close>).\<close>

definition accept_lo :: "nat \<Rightarrow> nat" where
  "accept_lo s0 = (if s0 = 0xE0 then 0xA0 else if s0 = 0xF0 then 0x90 else locb)"

definition accept_hi :: "nat \<Rightarrow> nat" where
  "accept_hi s0 = (if s0 = 0xED then 0x9F else if s0 = 0xF4 then 0x8F else hicb)"

definition DecodeRuneInString :: "string \<Rightarrow> rune \<times> nat" where
  "DecodeRuneInString s =
     (if length s < 1 then (RuneError, 0)
      else let s0 = byte_at s 0 in
        if s0 < 0x80 then (s0, 1)
        else if s0 < 0xC2 \<or> 0xF4 < s0 then (RuneError, 1)
        else let sz = first_size s0 in
          if length s < sz then (RuneError, 1)
          else let s1 = byte_at s 1 in
            if s1 < accept_lo s0 \<or> accept_hi s0 < s1 then (RuneError, 1)
            else if sz \<le> 2 then (s0 mod 32 * 64 + s1 mod 64, 2)
            else let s2 = byte_at s 2 in
              if s2 < locb \<or> hicb < s2 then (RuneError, 1)
              else if sz \<le> 3 then (s0 mod 16 * 4096 + s1 mod 64 * 64 + s2 mod 64, 3)
              else let s3 = byte_at s 3 in
                if s3 < locb \<or> hicb < s3 then (RuneError, 1)
                else (s0 mod 8 * 262144 + s1 mod 64 * 4096 + s2 mod 64 * 64 + s3 mod 64, 4))"

text \<open>The runes of a string, in order: what \<^verbatim>\<open>for _, r := range s\<close> yields.\<close>

function runes :: "string \<Rightarrow> rune list" where
  "runes s =
     (if s = [] then []
      else fst (DecodeRuneInString s) # runes (drop (snd (DecodeRuneInString s)) s))"
  by pat_completeness auto
termination
  by (relation "measure length") (auto simp: DecodeRuneInString_def Let_def)

definition RuneCountInString :: "string \<Rightarrow> nat" where
  "RuneCountInString s = length (runes s)"

section \<open>Errors\<close>

text \<open>
  The three sentinel errors of package \<^verbatim>\<open>errs\<close>. The validation functions wrap
  \<^verbatim>\<open>ErrValidation\<close> with a message (\<^verbatim>\<open>fmt.Errorf("%w: ...")\<close>); the message is the
  argument of the constructor, and \<^verbatim>\<open>errors.Is(err, errs.ErrValidation)\<close> is
  \<open>is_ErrValidation\<close>.
\<close>

datatype error = ErrTaskNotFound | ErrInvalidID | ErrValidation string

fun is_ErrValidation :: "error \<Rightarrow> bool" where
  "is_ErrValidation (ErrValidation msg) = True"
| "is_ErrValidation ErrTaskNotFound = False"
| "is_ErrValidation ErrInvalidID = False"

section \<open>Package validate\<close>

definition MaxTaskTitleLength :: nat where
  "MaxTaskTitleLength = 200"

definition MinTaskTitleLength :: nat where
  "MinTaskTitleLength = 3"

definition MaxTaskDescriptionLength :: nat where
  "MaxTaskDescriptionLength = 5000"

text \<open>
  The character class of \<^verbatim>\<open>taskTitleRegex\<close>, item by item as the pattern lists them:
  \<^verbatim>\<open>A-Z\<close>, \<^verbatim>\<open>a-z\<close>, \<^verbatim>\<open>0-9\<close>, the ranges U+0410 to U+042F and U+0430 to U+044F
  (capital A to capital YA, small a to small ya), \<^verbatim>\<open>\s\<close>, which in Go's syntax is
  tab, line feed, form feed, carriage return and space, and the five signs
  \<^verbatim>\<open>. , ! ? -\<close>.
\<close>

definition taskTitleRegex_class :: "rune \<Rightarrow> bool" where
  "taskTitleRegex_class r \<longleftrightarrow>
     (0x41 \<le> r \<and> r \<le> 0x5A) \<or> (0x61 \<le> r \<and> r \<le> 0x7A) \<or> (0x30 \<le> r \<and> r \<le> 0x39) \<or>
     (0x410 \<le> r \<and> r \<le> 0x42F) \<or> (0x430 \<le> r \<and> r \<le> 0x44F) \<or>
     r = 0x09 \<or> r = 0x0A \<or> r = 0x0C \<or> r = 0x0D \<or> r = 0x20 \<or>
     r = 0x2E \<or> r = 0x2C \<or> r = 0x21 \<or> r = 0x3F \<or> r = 0x2D"

text \<open>
  \<^verbatim>\<open>taskTitleRegex.MatchString\<close>: the pattern is anchored at both ends of the text and
  asks for one or more runes of the class.
\<close>

definition taskTitleRegex_MatchString :: "string \<Rightarrow> bool" where
  "taskTitleRegex_MatchString s =
     (case runes s of [] \<Rightarrow> False | r # rs \<Rightarrow> list_all taskTitleRegex_class (r # rs))"

definition CheckTaskTitle :: "string \<Rightarrow> error option" where
  "CheckTaskTitle title =
     (if title = [] then Some (ErrValidation ''task title cannot be empty'')
      else let length' = RuneCountInString title in
        if length' < MinTaskTitleLength
        then Some (ErrValidation ''task title must be at least 3 characters'')
        else if length' > MaxTaskTitleLength
        then Some (ErrValidation ''task title cannot be longer than 200 characters'')
        else if \<not> taskTitleRegex_MatchString title
        then Some (ErrValidation ''task title contains invalid characters'')
        else None)"

definition CheckTaskDescription :: "string \<Rightarrow> error option" where
  "CheckTaskDescription description =
     (let length' = RuneCountInString description in
      if length' > MaxTaskDescriptionLength
      then Some (ErrValidation ''task description cannot be longer than 5000 characters'')
      else None)"

section \<open>Package models\<close>

text \<open>
  A \<^verbatim>\<open>time.Time\<close> is modelled by the number of nanoseconds since the Unix epoch, an
  unbounded integer. The identifier is Go's \<^verbatim>\<open>int64\<close>, an integer; the one place
  where a value is converted to 64 bits, \<^verbatim>\<open>UnixNano\<close>, wraps explicitly.
\<close>

type_synonym time = int

type_synonym TaskStatus = string

definition StatusPending :: TaskStatus where
  "StatusPending = ''pending''"

definition StatusInProgress :: TaskStatus where
  "StatusInProgress = ''in_progress''"

definition StatusCompleted :: TaskStatus where
  "StatusCompleted = ''completed''"

record Task =
  ID :: int
  Title :: string
  Description :: string
  Status :: TaskStatus
  CreatedAt :: time
  UpdatedAt :: time

section \<open>Memory, clock and the repository's map\<close>

text \<open>
  The repository stores pointers (\<^verbatim>\<open>map[int64]*models.Task\<close>), hands the same pointers
  out, and the use-case layer writes through them, so the tasks live in an explicit
  heap: a pointer is an address, \<open>heap\<close> gives the task at an address, and \<open>nxt\<close> is
  the next address that \<^verbatim>\<open>&models.Task{...}\<close> allocates. Pointers are never nil here.
  \<open>tasks\<close> is the field \<^verbatim>\<open>TaskRepository.tasks\<close>.

  \<^verbatim>\<open>time.Now()\<close> reads the system clock: \<open>clock w n\<close> is the value of the \<open>n\<close>-th
  reading and \<open>ticks\<close> counts the readings made so far. Nothing is assumed of the
  readings here; a theorem that needs the clock not to run backwards, or to read a time
  that \<^verbatim>\<open>UnixNano\<close> can represent, says so.

  The mutex and the logger calls have no effect on results and are left out; the
  operations run one at a time.
\<close>

type_synonym addr = nat

record world =
  heap :: "addr \<Rightarrow> Task"
  nxt :: addr
  tasks :: "int \<rightharpoonup> addr"
  clock :: "nat \<Rightarrow> time"
  ticks :: nat

definition time_Now :: "world \<Rightarrow> time \<times> world" where
  "time_Now w = (clock w (ticks w), w\<lparr>ticks := Suc (ticks w)\<rparr>)"

definition int64 :: "int \<Rightarrow> int" where
  "int64 x = (x + 2 ^ 63) mod 2 ^ 64 - 2 ^ 63"

definition UnixNano :: "time \<Rightarrow> int" where
  "UnixNano t = int64 t"

definition Millisecond :: int where
  "Millisecond = 1000000"

text \<open>Go's integer division truncates towards zero.\<close>

definition quo :: "int \<Rightarrow> int \<Rightarrow> int" where
  "quo x y = (if (x < 0) = (y < 0) then \<bar>x\<bar> div \<bar>y\<bar> else - (\<bar>x\<bar> div \<bar>y\<bar>))"

definition new_Task :: "Task \<Rightarrow> world \<Rightarrow> addr \<times> world" where
  "new_Task t w = (nxt w, w\<lparr>heap := (heap w)(nxt w := t), nxt := Suc (nxt w)\<rparr>)"

definition set_Title :: "addr \<Rightarrow> string \<Rightarrow> world \<Rightarrow> world" where
  "set_Title p v w = w\<lparr>heap := (heap w)(p := (heap w p)\<lparr>Title := v\<rparr>)\<rparr>"

definition set_Description :: "addr \<Rightarrow> string \<Rightarrow> world \<Rightarrow> world" where
  "set_Description p v w = w\<lparr>heap := (heap w)(p := (heap w p)\<lparr>Description := v\<rparr>)\<rparr>"

definition set_Status :: "addr \<Rightarrow> TaskStatus \<Rightarrow> world \<Rightarrow> world" where
  "set_Status p v w = w\<lparr>heap := (heap w)(p := (heap w p)\<lparr>Status := v\<rparr>)\<rparr>"

definition set_CreatedAt :: "addr \<Rightarrow> time \<Rightarrow> world \<Rightarrow> world" where
  "set_CreatedAt p v w = w\<lparr>heap := (heap w)(p := (heap w p)\<lparr>CreatedAt := v\<rparr>)\<rparr>"

definition set_UpdatedAt :: "addr \<Rightarrow> time \<Rightarrow> world \<Rightarrow> world" where
  "set_UpdatedAt p v w = w\<lparr>heap := (heap w)(p := (heap w p)\<lparr>UpdatedAt := v\<rparr>)\<rparr>"

section \<open>Package repository\<close>

definition TaskRepository_CreateTask :: "addr \<Rightarrow> world \<Rightarrow> (error + addr) \<times> world" where
  "TaskRepository_CreateTask task w =
     (if ID (heap w task) < 0 then (Inl ErrInvalidID, w)
      else
        let (now, w1) = time_Now w;
            w2 = set_CreatedAt task now w1;
            w3 = set_UpdatedAt task now w2;
            w4 = w3\<lparr>tasks := (tasks w3)(ID (heap w3 task) \<mapsto> task)\<rparr>
        in (Inr task, w4))"

definition TaskRepository_GetTaskByID :: "int \<Rightarrow> world \<Rightarrow> (error + addr) \<times> world" where
  "TaskRepository_GetTaskByID tid w =
     (case tasks w tid of
        None \<Rightarrow> (Inl ErrTaskNotFound, w)
      | Some task \<Rightarrow> (Inr task, w))"

text \<open>
  The loop \<^verbatim>\<open>for _, task := range r.tasks\<close>. Go visits the entries of a map in an
  order that it does not specify and that changes from run to run; the order of one
  run is the argument \<open>keys\<close>, a list of the map's keys. (An element of \<open>keys\<close> that
  is not a key of the map contributes nothing.)
\<close>

fun range_tasks ::
  "(int \<rightharpoonup> addr) \<Rightarrow> (addr \<Rightarrow> Task) \<Rightarrow> TaskStatus \<Rightarrow> int list \<Rightarrow> addr list \<Rightarrow> addr list" where
  "range_tasks m h statusFilter [] acc = acc"
| "range_tasks m h statusFilter (k # keys) acc =
     (case m k of
        None \<Rightarrow> range_tasks m h statusFilter keys acc
      | Some task \<Rightarrow>
          if statusFilter = [] \<or> Status (h task) = statusFilter
          then range_tasks m h statusFilter keys (acc @ [task])
          else range_tasks m h statusFilter keys acc)"

definition TaskRepository_GetAllTasks ::
  "int list \<Rightarrow> TaskStatus \<Rightarrow> world \<Rightarrow> (error + addr list) \<times> world" where
  "TaskRepository_GetAllTasks keys statusFilter w =
     (Inr (range_tasks (tasks w) (heap w) statusFilter keys []), w)"

definition TaskRepository_UpdateTask :: "addr \<Rightarrow> world \<Rightarrow> (error + addr) \<times> world" where
  "TaskRepository_UpdateTask task w =
     (case tasks w (ID (heap w task)) of
        None \<Rightarrow> (Inl ErrTaskNotFound, w)
      | Some existingTask \<Rightarrow>
          let w1 = set_Title existingTask (Title (heap w task)) w;
              w2 = set_Description existingTask (Description (heap w1 task)) w1;
              w3 = set_Status existingTask (Status (heap w2 task)) w2;
              (now, w4) = time_Now w3;
              w5 = set_UpdatedAt existingTask now w4
          in (Inr existingTask, w5))"

definition TaskRepository_DeleteTask :: "int \<Rightarrow> world \<Rightarrow> error option \<times> world" where
  "TaskRepository_DeleteTask tid w =
     (case tasks w tid of
        None \<Rightarrow> (Some ErrTaskNotFound, w)
      | Some task \<Rightarrow> (None, w\<lparr>tasks := (tasks w)(tid := None)\<rparr>))"

section \<open>Package usecase\<close>

definition TaskUsecase_CreateTask :: "string \<Rightarrow> string \<Rightarrow> world \<Rightarrow> (error + addr) \<times> world" where
  "TaskUsecase_CreateTask title description w =
     (case CheckTaskTitle title of
        Some err \<Rightarrow> (Inl err, w)
      | None \<Rightarrow>
     (case CheckTaskDescription description of
        Some err \<Rightarrow> (Inl err, w)
      | None \<Rightarrow>
          let (t0, w1) = time_Now w;
              (t1, w2) = time_Now w1;
              (t2, w3) = time_Now w2;
              (task, w4) = new_Task
                \<lparr>ID = quo (UnixNano t0) (int64 Millisecond), Title = title,
                 Description = description, Status = StatusPending,
                 CreatedAt = t1, UpdatedAt = t2\<rparr> w3
          in (case TaskRepository_CreateTask task w4 of
                (Inl err, w5) \<Rightarrow> (Inl err, w5)
              | (Inr createdTask, w5) \<Rightarrow> (Inr createdTask, w5))))"

definition TaskUsecase_GetTask :: "int \<Rightarrow> world \<Rightarrow> (error + addr) \<times> world" where
  "TaskUsecase_GetTask tid w =
     (case TaskRepository_GetTaskByID tid w of
        (Inl err, w1) \<Rightarrow> (Inl err, w1)
      | (Inr task, w1) \<Rightarrow> (Inr task, w1))"

definition TaskUsecase_ListTasks ::
  "int list \<Rightarrow> TaskStatus \<Rightarrow> world \<Rightarrow> (error + addr list) \<times> world" where
  "TaskUsecase_ListTasks keys statusFilter w =
     (case TaskRepository_GetAllTasks keys statusFilter w of
        (Inl err, w1) \<Rightarrow> (Inl err, w1)
      | (Inr ts, w1) \<Rightarrow> (Inr ts, w1))"

definition TaskUsecase_UpdateTask ::
  "int \<Rightarrow> string \<Rightarrow> string \<Rightarrow> TaskStatus \<Rightarrow> world \<Rightarrow> (error + addr) \<times> world" where
  "TaskUsecase_UpdateTask tid newTitle newDescription status w =
     (case TaskRepository_GetTaskByID tid w of
        (Inl err, w0) \<Rightarrow> (Inl err, w0)
      | (Inr existingTask, w0) \<Rightarrow>
     (case (if newTitle \<noteq> [] then CheckTaskTitle newTitle else None) of
        Some err \<Rightarrow> (Inl err, w0)
      | None \<Rightarrow>
          let w1 = (if newTitle \<noteq> [] then set_Title existingTask newTitle w0 else w0) in
     (case (if newDescription \<noteq> [] then CheckTaskDescription newDescription else None) of
        Some err \<Rightarrow> (Inl err, w1)
      | None \<Rightarrow>
          let w2 = (if newDescription \<noteq> []
                    then set_Description existingTask newDescription w1 else w1);
              w3 = (if status \<noteq> [] then set_Status existingTask status w2 else w2);
              (now, w4) = time_Now w3;
              w5 = set_UpdatedAt existingTask now w4
          in (case TaskRepository_UpdateTask existingTask w5 of
                (Inl err, w6) \<Rightarrow> (Inl err, w6)
              | (Inr updatedTask, w6) \<Rightarrow> (Inr updatedTask, w6)))))"

definition TaskUsecase_DeleteTask :: "int \<Rightarrow> world \<Rightarrow> error option \<times> world" where
  "TaskUsecase_DeleteTask tid w =
     (case TaskRepository_DeleteTask tid w of
        (Some err, w1) \<Rightarrow> (Some err, w1)
      | (None, w1) \<Rightarrow> (None, w1))"

section \<open>States of the service\<close>

text \<open>
  A world in which the repository has just been made by \<^verbatim>\<open>CreateTaskRepository()\<close>:
  the map is empty and nothing is allocated.
\<close>

definition zero_Task :: Task where
  "zero_Task = \<lparr>ID = 0, Title = [], Description = [], Status = [], CreatedAt = 0, UpdatedAt = 0\<rparr>"

definition initial_world :: "(nat \<Rightarrow> time) \<Rightarrow> world" where
  "initial_world c = \<lparr>heap = (\<lambda>a. zero_Task), nxt = 0, tasks = Map.empty, clock = c, ticks = 0\<rparr>"

text \<open>
  The worlds that the service passes through: it starts with an empty map, and the
  transport layer calls the five operations of the use-case layer, which alone holds
  the repository.
\<close>

inductive reachable :: "world \<Rightarrow> bool" where
  start: "tasks w = Map.empty \<Longrightarrow> reachable w"
| create: "reachable w \<Longrightarrow> reachable (snd (TaskUsecase_CreateTask title description w))"
| get: "reachable w \<Longrightarrow> reachable (snd (TaskUsecase_GetTask tid w))"
| list: "reachable w \<Longrightarrow> reachable (snd (TaskUsecase_ListTasks keys statusFilter w))"
| update:
    "reachable w \<Longrightarrow>
     reachable (snd (TaskUsecase_UpdateTask tid newTitle newDescription status w))"
| delete: "reachable w \<Longrightarrow> reachable (snd (TaskUsecase_DeleteTask tid w))"

text \<open>Every stored pointer is allocated and points to a task that carries its key.\<close>

definition store_wf :: "world \<Rightarrow> bool" where
  "store_wf w \<longleftrightarrow> (\<forall>tid a. tasks w tid = Some a \<longrightarrow> a < nxt w \<and> ID (heap w a) = tid)"

text \<open>The clock does not run backwards: a reading is never earlier than the one
  before. (Go compares two values of \<^verbatim>\<open>time.Now()\<close> by their monotonic readings.)\<close>

definition clock_monotone :: "world \<Rightarrow> bool" where
  "clock_monotone w \<longleftrightarrow> (\<forall>n. clock w n \<le> clock w (Suc n))"

definition stamps_ordered :: "world \<Rightarrow> bool" where
  "stamps_ordered w \<longleftrightarrow>
     (\<forall>tid a. tasks w tid = Some a \<longrightarrow> CreatedAt (heap w a) \<le> UpdatedAt (heap w a))"

text \<open>No stored task was updated later than the clock's next reading.\<close>

definition stamps_past :: "world \<Rightarrow> bool" where
  "stamps_past w \<longleftrightarrow>
     (\<forall>tid a. tasks w tid = Some a \<longrightarrow> UpdatedAt (heap w a) \<le> clock w (ticks w))"



text \<open>No negative identifier is a key of the map.\<close>

definition keys_nonneg :: "world \<Rightarrow> bool" where
  "keys_nonneg w \<longleftrightarrow> (\<forall>tid. tid < 0 \<longrightarrow> tasks w tid = None)"

text \<open>The task that \<^verbatim>\<open>TaskUsecase.CreateTask\<close> builds before it calls the repository.\<close>

definition fresh_Task :: "string \<Rightarrow> string \<Rightarrow> world \<Rightarrow> Task" where
  "fresh_Task title description w =
     \<lparr>ID = quo (UnixNano (clock w (ticks w))) (int64 Millisecond), Title = title,
      Description = description, Status = StatusPending,
      CreatedAt = clock w (Suc (ticks w)), UpdatedAt = clock w (Suc (Suc (ticks w)))\<rparr>"

definition fails_with_Validation :: "(error + 'a) \<times> world \<Rightarrow> bool" where
  "fails_with_Validation r = (case fst r of Inl err \<Rightarrow> is_ErrValidation err | Inr x \<Rightarrow> False)"

section \<open>Sets of characters\<close>

definition Latin_letter :: "rune \<Rightarrow> bool" where
  "Latin_letter r \<longleftrightarrow> (0x41 \<le> r \<and> r \<le> 0x5A) \<or> (0x61 \<le> r \<and> r \<le> 0x7A)"

text \<open>The letters of Unicode's Cyrillic block, U+0400 to U+04FF without the signs
  and combining marks U+0482 to U+0489.\<close>

definition Cyrillic_letter :: "rune \<Rightarrow> bool" where
  "Cyrillic_letter r \<longleftrightarrow> (0x400 \<le> r \<and> r \<le> 0x481) \<or> (0x48A \<le> r \<and> r \<le> 0x4FF)"

text \<open>The capital letters from A to YA and the small letters from a to ya, which are
  the Russian alphabet without the letter IO (U+0401 and U+0451).\<close>

definition Cyrillic_A_to_ya :: "rune \<Rightarrow> bool" where
  "Cyrillic_A_to_ya r \<longleftrightarrow> (0x410 \<le> r \<and> r \<le> 0x42F) \<or> (0x430 \<le> r \<and> r \<le> 0x44F)"

definition digit :: "rune \<Rightarrow> bool" where
  "digit r \<longleftrightarrow> 0x30 \<le> r \<and> r \<le> 0x39"

text \<open>Tab, line feed, form feed, carriage return, space.\<close>

definition whitespace :: "rune \<Rightarrow> bool" where
  "whitespace r \<longleftrightarrow> r = 0x09 \<or> r = 0x0A \<or> r = 0x0C \<or> r = 0x0D \<or> r = 0x20"

definition title_punctuation :: "rune \<Rightarrow> bool" where
  "title_punctuation r \<longleftrightarrow> r = 0x2E \<or> r = 0x2C \<or> r = 0x21 \<or> r = 0x3F \<or> r = 0x2D"

text \<open>
  The characters of a title in the words of the specification: Latin and Cyrillic
  letters, digits, whitespace and five punctuation signs.
\<close>

definition claimed_title_char :: "rune \<Rightarrow> bool" where
  "claimed_title_char r \<longleftrightarrow>
     Latin_letter r \<or> Cyrillic_letter r \<or> digit r \<or> whitespace r \<or> title_punctuation r"

text \<open>The characters that the pattern matches, grouped in the same way.\<close>

definition accepted_title_char :: "rune \<Rightarrow> bool" where
  "accepted_title_char r \<longleftrightarrow>
     Latin_letter r \<or> Cyrillic_A_to_ya r \<or> digit r \<or> whitespace r \<or> title_punctuation r"

section \<open>Example inputs\<close>

text \<open>A clock that starts in November 2023 and advances by a microsecond per reading.\<close>

definition example_clock :: "nat \<Rightarrow> time" where
  "example_clock n = 1700000000000000000 + 1000 * int n"

text \<open>A clock that reads one millisecond before the Unix epoch.\<close>

definition early_clock :: "nat \<Rightarrow> time" where
  "early_clock n = - 1000000"

text \<open>The Russian word for a fir tree, four Cyrillic letters, in UTF-8.\<close>

definition Yolka :: string where
  "Yolka = [CHR 0xD0, CHR 0x81, CHR 0xD0, CHR 0xBB, CHR 0xD0, CHR 0xBA, CHR 0xD0, CHR 0xB0]"

text \<open>The same word spelled with the letter IE (U+0415) in place of IO (U+0401).\<close>

definition Elka :: string where
  "Elka = [CHR 0xD0, CHR 0x95, CHR 0xD0, CHR 0xBB, CHR 0xD0, CHR 0xBA, CHR 0xD0, CHR 0xB0]"

text \<open>The world after \<open>createTask\<close> has stored one task in a new repository.\<close>

definition example_world :: world where
  "example_world =
     \<lparr>heap = (\<lambda>a. zero_Task)
        (0 := \<lparr>ID = 1700000000000, Title = ''Old Title'', Description = ''Old description'',
               Status = StatusPending, CreatedAt = 1700000000000003000,
               UpdatedAt = 1700000000000003000\<rparr>),
      nxt = 1, tasks = [1700000000000 \<mapsto> 0], clock = example_clock, ticks = 4\<rparr>"

text \<open>Two tasks for the repository's own \<open>create\<close>: one with a negative identifier
  and one with the identifier that \<open>example_world\<close> already stores.\<close>

definition negative_task :: Task where
  "negative_task = \<lparr>ID = - 1, Title = ''Invalid Task'', Description = [], Status = [],
     CreatedAt = 0, UpdatedAt = 0\<rparr>"

definition colliding_task :: Task where
  "colliding_task = \<lparr>ID = 1700000000000, Title = ''Second Task'', Description = [],
     Status = StatusPending, CreatedAt = 0, UpdatedAt = 0\<rparr>"

text \<open>A world with three stored tasks, two of them pending.\<close>

definition three_tasks_world :: world where
  "three_tasks_world =
     \<lparr>heap = (\<lambda>a. zero_Task)
        (0 := \<lparr>ID = 1, Title = ''Task 1'', Description = [], Status = StatusPending,
               CreatedAt = 1700000000000003000, UpdatedAt = 1700000000000003000\<rparr>,
         1 := \<lparr>ID = 2, Title = ''Task 2'', Description = [], Status = StatusInProgress,
               CreatedAt = 1700000000000007000, UpdatedAt = 1700000000000009000\<rparr>,
         2 := \<lparr>ID = 3, Title = ''Task 3'', Description = [], Status = StatusPending,
               CreatedAt = 1700000000000013000, UpdatedAt = 1700000000000013000\<rparr>),
      nxt = 3, tasks = [1 \<mapsto> 0, 2 \<mapsto> 1, 3 \<mapsto> 2], clock = example_clock, ticks = 14\<rparr>"




section \<open>Facts about runes and validation\<close>

declare runes.simps [simp del]

lemma runes_Nil [simp]: "runes [] = []"
  by (simp add: runes.simps)

lemma runes_Cons:
  "runes (c # cs) =
     fst (DecodeRuneInString (c # cs)) # runes (drop (snd (DecodeRuneInString (c # cs))) (c # cs))"
  by (subst runes.simps) simp

lemma runes_eq_Nil [simp]: "runes s = [] \<longleftrightarrow> s = []"
  by (cases s) (simp_all add: runes_Cons)

lemma DecodeRuneInString_ascii:
  "of_char c < (0x80::nat) \<Longrightarrow> DecodeRuneInString (c # cs) = (of_char c, 1)"
  by (simp add: DecodeRuneInString_def byte_at_def)

lemma runes_ascii: "of_char c < (0x80::nat) \<Longrightarrow> runes (c # cs) = of_char c # runes cs"
  by (simp add: runes_Cons DecodeRuneInString_ascii)

lemma runes_replicate_ascii:
  "of_char c < (0x80::nat) \<Longrightarrow> runes (replicate n c) = replicate n (of_char c)"
  by (induction n) (simp_all add: runes_ascii)

lemma RuneCountInString_replicate_ascii:
  "of_char c < (0x80::nat) \<Longrightarrow> RuneCountInString (replicate n c) = n"
  by (simp add: RuneCountInString_def runes_replicate_ascii)

lemma CheckTaskTitle_None:
  "CheckTaskTitle title = None \<longleftrightarrow>
     3 \<le> RuneCountInString title \<and> RuneCountInString title \<le> 200 \<and>
     list_all taskTitleRegex_class (runes title)"
  by (cases "runes title")
     (auto simp: CheckTaskTitle_def taskTitleRegex_MatchString_def Let_def
        MinTaskTitleLength_def MaxTaskTitleLength_def RuneCountInString_def)

lemma CheckTaskTitle_Some:
  "CheckTaskTitle title = Some e \<Longrightarrow> is_ErrValidation e"
  by (auto simp: CheckTaskTitle_def Let_def split: if_splits)

lemma CheckTaskDescription_None:
  "CheckTaskDescription description = None \<longleftrightarrow> RuneCountInString description \<le> 5000"
  by (auto simp: CheckTaskDescription_def Let_def MaxTaskDescriptionLength_def)

lemma CheckTaskDescription_Some:
  "CheckTaskDescription description = Some e \<Longrightarrow> is_ErrValidation e"
  by (auto simp: CheckTaskDescription_def Let_def split: if_splits)

lemma CheckTaskDescription_Nil [simp]: "CheckTaskDescription [] = None"
  by (simp add: CheckTaskDescription_None RuneCountInString_def)

lemma accepted_title_char_iff: "accepted_title_char r = taskTitleRegex_class r"
  unfolding accepted_title_char_def taskTitleRegex_class_def Latin_letter_def Cyrillic_A_to_ya_def
    digit_def whitespace_def title_punctuation_def
  by blast

lemma DecodeRuneInString_two:
  "0xC2 \<le> (of_char c0 :: nat) \<Longrightarrow> (of_char c0 :: nat) < 0xE0 \<Longrightarrow>
   0x80 \<le> (of_char c1 :: nat) \<Longrightarrow> (of_char c1 :: nat) \<le> 0xBF \<Longrightarrow>
   DecodeRuneInString (c0 # c1 # cs) = (of_char c0 mod 32 * 64 + of_char c1 mod 64, 2)"
  by (simp add: DecodeRuneInString_def byte_at_def first_size_def
      accept_lo_def accept_hi_def locb_def hicb_def Let_def)

lemma runes_two:
  "0xC2 \<le> (of_char c0 :: nat) \<Longrightarrow> (of_char c0 :: nat) < 0xE0 \<Longrightarrow>
   0x80 \<le> (of_char c1 :: nat) \<Longrightarrow> (of_char c1 :: nat) \<le> 0xBF \<Longrightarrow>
   runes (c0 # c1 # cs) = (of_char c0 mod 32 * 64 + of_char c1 mod 64) # runes cs"
  by (simp add: runes_Cons DecodeRuneInString_two)

lemma runes_Yolka: "runes Yolka = [0x401, 0x43B, 0x43A, 0x430]"
  by (simp add: Yolka_def runes_two)

lemma runes_Elka: "runes Elka = [0x415, 0x43B, 0x43A, 0x430]"
  by (simp add: Elka_def runes_two)

section \<open>The operations in closed form\<close>

lemmas setters = set_Title_def set_Description_def set_Status_def set_CreatedAt_def set_UpdatedAt_def

lemma CreateTask_rejected_title:
  "CheckTaskTitle title = Some err \<Longrightarrow> TaskUsecase_CreateTask title description w = (Inl err, w)"
  by (simp add: TaskUsecase_CreateTask_def)

lemma CreateTask_rejected_description:
  "CheckTaskTitle title = None \<Longrightarrow> CheckTaskDescription description = Some err \<Longrightarrow>
   TaskUsecase_CreateTask title description w = (Inl err, w)"
  by (simp add: TaskUsecase_CreateTask_def)

lemma CreateTask_valid:
  "CheckTaskTitle title = None \<Longrightarrow> CheckTaskDescription description = None \<Longrightarrow>
   TaskUsecase_CreateTask title description w =
     (if ID (fresh_Task title description w) < 0
      then (Inl ErrInvalidID,
            w\<lparr>heap := (heap w)(nxt w := fresh_Task title description w),
              nxt := Suc (nxt w), ticks := ticks w + 3\<rparr>)
      else (Inr (nxt w),
            w\<lparr>heap := (heap w)(nxt w := (fresh_Task title description w)
                 \<lparr>CreatedAt := clock w (ticks w + 3), UpdatedAt := clock w (ticks w + 3)\<rparr>),
              nxt := Suc (nxt w),
              tasks := (tasks w)(ID (fresh_Task title description w) \<mapsto> nxt w),
              ticks := ticks w + 4\<rparr>))"
  by (simp add: TaskUsecase_CreateTask_def TaskRepository_CreateTask_def time_Now_def new_Task_def
      fresh_Task_def setters numeral_3_eq_3 numeral_Bit0 eval_nat_numeral)

lemma CreateTask_Validation_iff:
  "fails_with_Validation (TaskUsecase_CreateTask title description w) \<longleftrightarrow>
     CheckTaskTitle title \<noteq> None \<or> CheckTaskDescription description \<noteq> None"
proof (cases "CheckTaskTitle title")
  case (Some err)
  then show ?thesis
    by (simp add: CreateTask_rejected_title fails_with_Validation_def CheckTaskTitle_Some)
next
  case None
  show ?thesis
  proof (cases "CheckTaskDescription description")
    case (Some err)
    with None show ?thesis
      by (simp add: CreateTask_rejected_description fails_with_Validation_def CheckTaskDescription_Some)
  next
    case None' : None
    with None show ?thesis
      by (simp add: CreateTask_valid fails_with_Validation_def)
  qed
qed

text \<open>When the code, as it stands, fails with a validation error.\<close>

lemma CreateTask_Validation_iff_pattern:
  "fails_with_Validation (TaskUsecase_CreateTask title description w) \<longleftrightarrow>
     title = [] \<or> RuneCountInString title < 3 \<or> 200 < RuneCountInString title \<or>
     \<not> list_all accepted_title_char (runes title) \<or> 5000 < RuneCountInString description"
proof -
  have cls: "list_all accepted_title_char (runes title) = list_all taskTitleRegex_class (runes title)"
    by (simp add: list_all_iff accepted_title_char_iff)
  have empty: "title = [] \<Longrightarrow> RuneCountInString title < 3"
    by (simp add: RuneCountInString_def)
  show ?thesis
    unfolding CreateTask_Validation_iff cls
    using empty by (auto simp: CheckTaskTitle_None CheckTaskDescription_None)
qed

lemma GetTask_eq: "TaskUsecase_GetTask tid w =
   (case tasks w tid of None \<Rightarrow> (Inl ErrTaskNotFound, w) | Some task \<Rightarrow> (Inr task, w))"
  by (simp add: TaskUsecase_GetTask_def TaskRepository_GetTaskByID_def split: option.splits)

lemma DeleteTask_eq: "TaskUsecase_DeleteTask tid w =
   (case tasks w tid of None \<Rightarrow> (Some ErrTaskNotFound, w)
    | Some task \<Rightarrow> (None, w\<lparr>tasks := (tasks w)(tid := None)\<rparr>))"
  by (simp add: TaskUsecase_DeleteTask_def TaskRepository_DeleteTask_def split: option.splits)

lemma ListTasks_eq: "TaskUsecase_ListTasks keys statusFilter w =
   (Inr (range_tasks (tasks w) (heap w) statusFilter keys []), w)"
  by (simp add: TaskUsecase_ListTasks_def TaskRepository_GetAllTasks_def)

lemma Repository_CreateTask_eq:
  "TaskRepository_CreateTask task w =
     (if ID (heap w task) < 0 then (Inl ErrInvalidID, w)
      else (Inr task,
            w\<lparr>heap := (heap w)(task := (heap w task)
                 \<lparr>CreatedAt := clock w (ticks w), UpdatedAt := clock w (ticks w)\<rparr>),
              tasks := (tasks w)(ID (heap w task) \<mapsto> task),
              ticks := Suc (ticks w)\<rparr>))"
  by (simp add: TaskRepository_CreateTask_def time_Now_def setters)

lemma Repository_UpdateTask_eq:
  "TaskRepository_UpdateTask task w =
     (case tasks w (ID (heap w task)) of
        None \<Rightarrow> (Inl ErrTaskNotFound, w)
      | Some existingTask \<Rightarrow>
          (Inr existingTask,
           w\<lparr>heap := (heap w)(existingTask := (heap w existingTask)
                \<lparr>Title := Title (heap w task), Description := Description (heap w task),
                 Status := Status (heap w task), UpdatedAt := clock w (ticks w)\<rparr>),
             ticks := Suc (ticks w)\<rparr>))"
  by (auto simp: TaskRepository_UpdateTask_def time_Now_def setters split: option.splits)

lemma UpdateTask_not_found:
  "tasks w tid = None \<Longrightarrow>
   TaskUsecase_UpdateTask tid newTitle newDescription status w = (Inl ErrTaskNotFound, w)"
  by (simp add: TaskUsecase_UpdateTask_def TaskRepository_GetTaskByID_def)

lemma UpdateTask_rejected_title:
  "tasks w tid = Some a \<Longrightarrow> newTitle \<noteq> [] \<Longrightarrow> CheckTaskTitle newTitle = Some err \<Longrightarrow>
   TaskUsecase_UpdateTask tid newTitle newDescription status w = (Inl err, w)"
  by (simp add: TaskUsecase_UpdateTask_def TaskRepository_GetTaskByID_def)

lemma UpdateTask_rejected_description:
  "tasks w tid = Some a \<Longrightarrow> newTitle = [] \<or> CheckTaskTitle newTitle = None \<Longrightarrow>
   newDescription \<noteq> [] \<Longrightarrow> CheckTaskDescription newDescription = Some err \<Longrightarrow>
   TaskUsecase_UpdateTask tid newTitle newDescription status w =
     (Inl err, if newTitle \<noteq> [] then set_Title a newTitle w else w)"
  by (auto simp: TaskUsecase_UpdateTask_def TaskRepository_GetTaskByID_def)

lemma UpdateTask_merged:
  assumes "tasks w tid = Some a" "ID (heap w a) = tid"
   "newTitle = [] \<or> CheckTaskTitle newTitle = None"
   "newDescription = [] \<or> CheckTaskDescription newDescription = None"
  shows "TaskUsecase_UpdateTask tid newTitle newDescription status w =
     (Inr a, w\<lparr>heap := (heap w)(a := (heap w a)\<lparr>
          Title := (if newTitle = [] then Title (heap w a) else newTitle),
          Description := (if newDescription = [] then Description (heap w a) else newDescription),
          Status := (if status = [] then Status (heap w a) else status),
          UpdatedAt := clock w (Suc (ticks w))\<rparr>),
        ticks := Suc (Suc (ticks w))\<rparr>)"
  using assms
  by (auto simp: TaskUsecase_UpdateTask_def TaskRepository_GetTaskByID_def TaskRepository_UpdateTask_def
      time_Now_def setters)

lemma int64_id: "- (2 ^ 63) \<le> x \<Longrightarrow> x < 2 ^ 63 \<Longrightarrow> int64 x = x"
  by (simp add: int64_def)

lemma quo_nonneg: "0 \<le> a \<Longrightarrow> 0 < b \<Longrightarrow> quo a b = a div b"
  by (simp add: quo_def)

lemma fresh_Task_ID_nonneg:
  assumes "0 \<le> clock w (ticks w)" "clock w (ticks w) < 2 ^ 63"
  shows "0 \<le> ID (fresh_Task title description w)"
proof -
  have "int64 Millisecond = 1000000"
    by (simp add: Millisecond_def int64_def)
  moreover have "UnixNano (clock w (ticks w)) = clock w (ticks w)"
    using assms by (simp add: UnixNano_def int64_id)
  ultimately show ?thesis
    using assms by (simp add: fresh_Task_def quo_nonneg)
qed

lemma set_range_tasks_acc:
  "set (range_tasks m h f keys acc) =
     set acc \<union> {a. \<exists>k \<in> set keys. m k = Some a \<and> (f = [] \<or> Status (h a) = f)}"
  by (induction keys arbitrary: acc) (auto split: option.splits)

lemma set_range_tasks:
  assumes "set keys = dom m"
  shows "set (range_tasks m h f keys []) =
     {a. \<exists>tid. m tid = Some a \<and> (f = [] \<or> Status (h a) = f)}"
proof -
  have "(\<exists>k \<in> set keys. m k = Some a) \<longleftrightarrow> (\<exists>tid. m tid = Some a)" for a
    using assms by auto
  then show ?thesis
    by (simp add: set_range_tasks_acc)
qed

lemma length_range_tasks_acc:
  "length (range_tasks m h f keys acc) =
     length acc +
     length (filter (\<lambda>k. \<exists>a. m k = Some a \<and> (f = [] \<or> Status (h a) = f)) keys)"
  by (induction keys arbitrary: acc) (auto split: option.splits)

lemma length_range_tasks:
  assumes "distinct keys" "set keys = dom m"
  shows "length (range_tasks m h f keys []) =
     card {tid. \<exists>a. m tid = Some a \<and> (f = [] \<or> Status (h a) = f)}"
proof -
  let ?P = "\<lambda>k. \<exists>a. m k = Some a \<and> (f = [] \<or> Status (h a) = f)"
  have "distinct (filter ?P keys)"
    using assms(1) by simp
  then have "length (filter ?P keys) = card (set (filter ?P keys))"
    by (rule distinct_card [symmetric])
  moreover have "set (filter ?P keys) = {tid. ?P tid}"
    using assms(2) by auto
  ultimately show ?thesis
    by (simp add: length_range_tasks_acc)
qed

lemma clock_monotone_le: "clock_monotone w \<Longrightarrow> i \<le> j \<Longrightarrow> clock w i \<le> clock w j"
  unfolding clock_monotone_def by (rule lift_Suc_mono_le) simp_all

lemma CreateTask_cases:
  obtains (rejected) err where
      "TaskUsecase_CreateTask title description w = (Inl err, w)" "is_ErrValidation err"
  | (invalid) "ID (fresh_Task title description w) < 0"
      "TaskUsecase_CreateTask title description w =
        (Inl ErrInvalidID,
         w\<lparr>heap := (heap w)(nxt w := fresh_Task title description w),
           nxt := Suc (nxt w), ticks := ticks w + 3\<rparr>)"
  | (stored) "0 \<le> ID (fresh_Task title description w)"
      "TaskUsecase_CreateTask title description w =
        (Inr (nxt w),
         w\<lparr>heap := (heap w)(nxt w := (fresh_Task title description w)
              \<lparr>CreatedAt := clock w (ticks w + 3), UpdatedAt := clock w (ticks w + 3)\<rparr>),
           nxt := Suc (nxt w),
           tasks := (tasks w)(ID (fresh_Task title description w) \<mapsto> nxt w),
           ticks := ticks w + 4\<rparr>)"
proof (cases "CheckTaskTitle title")
  case (Some err)
  then show ?thesis
    using rejected [of err] by (simp add: CreateTask_rejected_title CheckTaskTitle_Some)
next
  case None
  show ?thesis
  proof (cases "CheckTaskDescription description")
    case (Some err)
    with None show ?thesis
      using rejected [of err]
      by (simp add: CreateTask_rejected_description CheckTaskDescription_Some)
  next
    case None' : None
    show ?thesis
    proof (cases "ID (fresh_Task title description w) < 0")
      case True
      with None None' show ?thesis
        using invalid by (simp add: CreateTask_valid)
    next
      case False
      with None None' show ?thesis
        using stored by (simp add: CreateTask_valid)
    qed
  qed
qed

lemma UpdateTask_cases:
  assumes "\<And>a. tasks w tid = Some a \<Longrightarrow> ID (heap w a) = tid"
  obtains (not_found) "tasks w tid = None"
      "TaskUsecase_UpdateTask tid newTitle newDescription status w = (Inl ErrTaskNotFound, w)"
  | (title) a err where "tasks w tid = Some a" "is_ErrValidation err"
      "TaskUsecase_UpdateTask tid newTitle newDescription status w = (Inl err, w)"
  | (description) a err where "tasks w tid = Some a" "is_ErrValidation err"
      "TaskUsecase_UpdateTask tid newTitle newDescription status w =
        (Inl err, if newTitle \<noteq> [] then set_Title a newTitle w else w)"
  | (merged) a where "tasks w tid = Some a"
      "TaskUsecase_UpdateTask tid newTitle newDescription status w =
        (Inr a, w\<lparr>heap := (heap w)(a := (heap w a)\<lparr>
             Title := (if newTitle = [] then Title (heap w a) else newTitle),
             Description :=
               (if newDescription = [] then Description (heap w a) else newDescription),
             Status := (if status = [] then Status (heap w a) else status),
             UpdatedAt := clock w (Suc (ticks w))\<rparr>),
           ticks := Suc (Suc (ticks w))\<rparr>)"
proof (cases "tasks w tid")
  case None
  then show ?thesis
    using not_found by (simp add: UpdateTask_not_found)
next
  case (Some a)
  note stored = this
  show ?thesis
  proof (cases "newTitle = [] \<or> CheckTaskTitle newTitle = None")
    case False
    then obtain err where "newTitle \<noteq> []" "CheckTaskTitle newTitle = Some err"
      by auto
    then show ?thesis
      using title [of a err] stored
      by (simp add: UpdateTask_rejected_title CheckTaskTitle_Some)
  next
    case True
    note title_ok = this
    show ?thesis
    proof (cases "newDescription = [] \<or> CheckTaskDescription newDescription = None")
      case False
      then obtain err where "newDescription \<noteq> []" "CheckTaskDescription newDescription = Some err"
        by auto
      then show ?thesis
        using description [of a err] stored title_ok
        by (simp add: UpdateTask_rejected_description CheckTaskDescription_Some)
    next
      case True
      then show ?thesis
        using merged [of a] stored title_ok assms [OF stored]
        by (simp add: UpdateTask_merged)
    qed
  qed
qed

lemma rewrap:
  "(case r of (Inl err, w') \<Rightarrow> (Inl err, w') | (Inr x, w') \<Rightarrow> (Inr x, w')) = r"
  by (simp split: prod.splits sum.splits)

lemma UpdateTask_validated:
  assumes "tasks w tid = Some a"
    and "newTitle = [] \<or> CheckTaskTitle newTitle = None"
    and "newDescription = [] \<or> CheckTaskDescription newDescription = None"
  shows "\<exists>w5. TaskUsecase_UpdateTask tid newTitle newDescription status w =
     TaskRepository_UpdateTask a w5"
  using assms
  by (auto simp: TaskUsecase_UpdateTask_def TaskRepository_GetTaskByID_def time_Now_def rewrap Let_def)

lemma UpdateTask_not_InvalidID:
  "fst (TaskUsecase_UpdateTask tid newTitle newDescription status w) \<noteq> Inl ErrInvalidID"
proof (cases "tasks w tid")
  case None
  then show ?thesis by (simp add: UpdateTask_not_found)
next
  case (Some a)
  show ?thesis
  proof (cases "newTitle = [] \<or> CheckTaskTitle newTitle = None")
    case False
    then obtain err where "newTitle \<noteq> []" "CheckTaskTitle newTitle = Some err"
      by auto
    with Some show ?thesis
      using CheckTaskTitle_Some [of newTitle err]
      by (auto simp: UpdateTask_rejected_title)
  next
    case True
    note title_ok = this
    show ?thesis
    proof (cases "newDescription = [] \<or> CheckTaskDescription newDescription = None")
      case False
      then obtain err where "newDescription \<noteq> []" "CheckTaskDescription newDescription = Some err"
        by auto
      with Some title_ok show ?thesis
        using CheckTaskDescription_Some [of newDescription err]
        by (auto simp: UpdateTask_rejected_description)
    next
      case True
      with Some title_ok obtain w5 where
        "TaskUsecase_UpdateTask tid newTitle newDescription status w =
           TaskRepository_UpdateTask a w5"
        using UpdateTask_validated by blast
      then show ?thesis
        by (simp add: Repository_UpdateTask_eq split: option.splits)
    qed
  qed
qed

section \<open>Invariants of the reachable worlds\<close>

lemma CreateTask_clock: "clock (snd (TaskUsecase_CreateTask title description w)) = clock w"
  by (rule CreateTask_cases [of title description w]) simp_all

lemma UpdateTask_clock:
  assumes "store_wf w"
  shows "clock (snd (TaskUsecase_UpdateTask tid newTitle newDescription status w)) = clock w"
proof -
  have e: "\<And>a. tasks w tid = Some a \<Longrightarrow> ID (heap w a) = tid"
    using assms by (simp add: store_wf_def)
  show ?thesis
    by (rule UpdateTask_cases [OF e, of newTitle newDescription status])
       (simp_all add: set_Title_def)
qed

lemma CreateTask_store_wf:
  assumes "store_wf w"
  shows "store_wf (snd (TaskUsecase_CreateTask title description w))"
  using assms
  by (rule_tac CreateTask_cases [of title description w])
     (auto simp: store_wf_def less_Suc_eq)

lemma CreateTask_keys_nonneg:
  assumes "keys_nonneg w"
  shows "keys_nonneg (snd (TaskUsecase_CreateTask title description w))"
  using assms
  by (rule_tac CreateTask_cases [of title description w])
     (auto simp: keys_nonneg_def)



lemma CreateTask_stamps:
  assumes "store_wf w" "clock_monotone w" "stamps_ordered w" "stamps_past w"
  shows "stamps_ordered (snd (TaskUsecase_CreateTask title description w)) \<and>
         stamps_past (snd (TaskUsecase_CreateTask title description w))"
proof (rule CreateTask_cases [of title description w])
  fix err
  assume "TaskUsecase_CreateTask title description w = (Inl err, w)"
  then show ?thesis using assms by simp
next
  have m: "clock w (ticks w) \<le> clock w (ticks w + 3)"
    using assms(2) by (rule clock_monotone_le) simp
  assume "TaskUsecase_CreateTask title description w =
        (Inl ErrInvalidID,
         w\<lparr>heap := (heap w)(nxt w := fresh_Task title description w),
           nxt := Suc (nxt w), ticks := ticks w + 3\<rparr>)"
  then show ?thesis
    using assms(1,3,4) m
    by (fastforce simp: store_wf_def stamps_ordered_def stamps_past_def)
next
  have m: "clock w (ticks w) \<le> clock w (ticks w + 4)" "clock w (ticks w + 3) \<le> clock w (ticks w + 4)"
    using assms(2) by (auto intro: clock_monotone_le)
  assume "TaskUsecase_CreateTask title description w =
        (Inr (nxt w),
         w\<lparr>heap := (heap w)(nxt w := (fresh_Task title description w)
              \<lparr>CreatedAt := clock w (ticks w + 3), UpdatedAt := clock w (ticks w + 3)\<rparr>),
           nxt := Suc (nxt w),
           tasks := (tasks w)(ID (fresh_Task title description w) \<mapsto> nxt w),
           ticks := ticks w + 4\<rparr>)"
  then show ?thesis
    using assms(1,3,4) m
    by (fastforce simp: store_wf_def stamps_ordered_def stamps_past_def)
qed

lemma UpdateTask_store_wf:
  assumes "store_wf w"
  shows "store_wf (snd (TaskUsecase_UpdateTask tid newTitle newDescription status w))"
proof -
  have e: "\<And>a. tasks w tid = Some a \<Longrightarrow> ID (heap w a) = tid"
    using assms by (simp add: store_wf_def)
  show ?thesis
    using assms
    by (rule_tac UpdateTask_cases [OF e, of newTitle newDescription status])
       (auto simp: store_wf_def set_Title_def)
qed

lemma UpdateTask_tasks:
  assumes "store_wf w"
  shows "tasks (snd (TaskUsecase_UpdateTask tid newTitle newDescription status w)) = tasks w"
proof -
  have e: "\<And>a. tasks w tid = Some a \<Longrightarrow> ID (heap w a) = tid"
    using assms by (simp add: store_wf_def)
  show ?thesis
    by (rule UpdateTask_cases [OF e, of newTitle newDescription status])
       (simp_all add: set_Title_def)
qed


lemma UpdateTask_stamps:
  assumes "store_wf w" "clock_monotone w" "stamps_ordered w" "stamps_past w"
  shows "stamps_ordered (snd (TaskUsecase_UpdateTask tid newTitle newDescription status w)) \<and>
         stamps_past (snd (TaskUsecase_UpdateTask tid newTitle newDescription status w))"
proof -
  have e: "\<And>a. tasks w tid = Some a \<Longrightarrow> ID (heap w a) = tid"
    using assms(1) by (simp add: store_wf_def)
  have m: "clock w (ticks w) \<le> clock w (Suc (ticks w))"
    "clock w (ticks w) \<le> clock w (Suc (Suc (ticks w)))"
    "clock w (Suc (ticks w)) \<le> clock w (Suc (Suc (ticks w)))"
    using assms(2) by (auto intro: clock_monotone_le)
  show ?thesis
    using assms(3,4) m
    by (rule_tac UpdateTask_cases [OF e, of newTitle newDescription status])
       (fastforce simp: stamps_ordered_def stamps_past_def set_Title_def)+
qed

lemma reachable_invariants:
  "reachable w \<Longrightarrow>
   store_wf w \<and> keys_nonneg w \<and> (clock_monotone w \<longrightarrow> stamps_ordered w \<and> stamps_past w)"
proof (induction rule: reachable.induct)
  case (start w)
  then show ?case
    by (simp add: store_wf_def keys_nonneg_def stamps_ordered_def stamps_past_def)
next
  case (create w title description)
  then show ?case
    using CreateTask_stamps [of w title description]
    by (simp add: CreateTask_store_wf CreateTask_keys_nonneg clock_monotone_def CreateTask_clock)
next
  case (get w tid)
  then show ?case
    by (simp add: GetTask_eq split: option.splits)
next
  case (list w keys statusFilter)
  then show ?case
    by (simp add: ListTasks_eq)
next
  case (update w tid newTitle newDescription status)
  then show ?case
    using UpdateTask_stamps [of w tid newTitle newDescription status]
    by (simp add: UpdateTask_store_wf keys_nonneg_def UpdateTask_tasks clock_monotone_def
        UpdateTask_clock)
next
  case (delete w tid)
  then show ?case
    by (auto simp: DeleteTask_eq store_wf_def keys_nonneg_def stamps_ordered_def stamps_past_def
        clock_monotone_def split: option.splits)
qed

text \<open>In a reachable world the task stored under a key carries that key.\<close>

lemma reachable_stored_ID:
  "reachable w \<Longrightarrow> tasks w tid = Some a \<Longrightarrow> ID (heap w a) = tid"
  using reachable_invariants [of w] by (simp add: store_wf_def)

section \<open>Facts about the example inputs\<close>

lemma example_world_tasks: "tasks example_world 1700000000000 = Some 0"
  by (simp add: example_world_def)

lemma example_world_heap: "heap example_world 0 =
   \<lparr>ID = 1700000000000, Title = ''Old Title'', Description = ''Old description'',
               Status = StatusPending, CreatedAt = 1700000000000003000,
               UpdatedAt = 1700000000000003000\<rparr>"
  by (simp add: example_world_def)

lemma runes_New_Title: "runes ''New Title'' = [0x4E, 0x65, 0x77, 0x20, 0x54, 0x69, 0x74, 0x6C, 0x65]"
  by (simp add: runes_ascii)

lemma CheckTaskTitle_New_Title: "CheckTaskTitle ''New Title'' = None"
  by (simp add: CheckTaskTitle_None RuneCountInString_def runes_New_Title taskTitleRegex_class_def)

lemma CheckTaskDescription_5001: "CheckTaskDescription (replicate 5001 CHR ''a'') =
    Some (ErrValidation ''task description cannot be longer than 5000 characters'')"
proof -
  have "of_char CHR ''a'' < (0x80::nat)" by simp
  then have "RuneCountInString (replicate 5001 CHR ''a'') = 5001"
    by (rule RuneCountInString_replicate_ascii)
  then show ?thesis
    by (simp add: CheckTaskDescription_def MaxTaskDescriptionLength_def)
qed

lemma runes_Old_Title: "runes ''Old Title'' = [0x4F, 0x6C, 0x64, 0x20, 0x54, 0x69, 0x74, 0x6C, 0x65]"
  by (simp add: runes_ascii)

lemma CheckTaskTitle_Old_Title: "CheckTaskTitle ''Old Title'' = None"
  by (simp add: CheckTaskTitle_None RuneCountInString_def runes_Old_Title taskTitleRegex_class_def)

lemma CheckTaskDescription_Old_description: "CheckTaskDescription ''Old description'' = None"
  by (simp add: CheckTaskDescription_None RuneCountInString_def runes_ascii)

lemma example_world_created:
  "TaskUsecase_CreateTask ''Old Title'' ''Old description'' (initial_world example_clock) =
     (Inr 0, example_world)"
  by (simp add: CreateTask_valid CheckTaskTitle_Old_Title CheckTaskDescription_Old_description)
     (simp add: fresh_Task_def initial_world_def example_world_def example_clock_def UnixNano_def
        int64_def Millisecond_def quo_def)

lemma reachable_example_world: "reachable example_world"
proof -
  have "reachable (initial_world example_clock)"
    by (rule reachable.start) (simp add: initial_world_def)
  then have "reachable (snd (TaskUsecase_CreateTask ''Old Title'' ''Old description''
      (initial_world example_clock)))"
    by (rule reachable.create)
  then show ?thesis
    by (simp add: example_world_created)
qed


section \<open>C1: updateTask merges the new fields into the stored task\<close>

text \<open>
  C1. Let a task be stored under \<open>tid\<close> and carry that identifier. When each of the new
  title and the new description is empty or passes its validation, \<open>updateTask\<close>
  succeeds; in the stored task the title is the new title unless that is empty, the
  description is the new description unless that is empty, the status is the new
  status, whatever string it is, unless that is empty, and the time of the last update
  is the reading of the clock that the repository takes; identifier and creation time
  are as before, and \<open>getTask\<close> then returns this task.
\<close>

theorem UpdateTask_merges_fields:
  assumes "tasks w tid = Some a" and "ID (heap w a) = tid"
    and "newTitle = [] \<or> CheckTaskTitle newTitle = None"
    and "newDescription = [] \<or> CheckTaskDescription newDescription = None"
  shows "\<exists>w'. TaskUsecase_UpdateTask tid newTitle newDescription newStatus w = (Inr a, w') \<and>
     heap w' a = (heap w a)\<lparr>
        Title := (if newTitle = [] then Title (heap w a) else newTitle),
        Description := (if newDescription = [] then Description (heap w a) else newDescription),
        Status := (if newStatus = [] then Status (heap w a) else newStatus),
        UpdatedAt := clock w (Suc (ticks w))\<rparr> \<and>
     TaskUsecase_GetTask tid w' = (Inr a, w')"
  using assms by (simp add: UpdateTask_merged GetTask_eq)

text \<open>An instance: a new title, no new description, and a status that is none of the
  three known ones.\<close>

theorem UpdateTask_merges_fields_witness:
  "tasks example_world 1700000000000 = Some 0 \<and> ID (heap example_world 0) = 1700000000000 \<and>
   CheckTaskTitle ''New Title'' = None \<and>
   (\<exists>w'. TaskUsecase_UpdateTask 1700000000000 ''New Title'' [] ''archived'' example_world = (Inr 0, w') \<and>
      heap w' 0 = \<lparr>ID = 1700000000000, Title = ''New Title'', Description = ''Old description'',
               Status = ''archived'', CreatedAt = 1700000000000003000,
               UpdatedAt = 1700000000000005000\<rparr> \<and>
      TaskUsecase_GetTask 1700000000000 w' = (Inr 0, w'))"
  using UpdateTask_merges_fields [of example_world 1700000000000 0 "''New Title''" "[]" "''archived''"]
  by (simp add: example_world_tasks example_world_heap CheckTaskTitle_New_Title)
     (simp add: example_world_def example_clock_def)

section \<open>C2: a validation error of updateTask and the stored task\<close>

text \<open>
  C2 says that a validation error leaves the stored task as it was. The code writes the
  new title through the pointer that the repository returned, which is the stored
  task itself, before it validates the description: with a valid new title and a
  description of 5001 runes the call fails with a validation error and the stored
  title is already the new one.
\<close>

theorem UpdateTask_Validation_error_after_title_written:
  "TaskUsecase_UpdateTask 1700000000000 ''New Title'' (replicate 5001 CHR ''a'') [] example_world =
     (Inl (ErrValidation ''task description cannot be longer than 5000 characters''),
      set_Title 0 ''New Title'' example_world) \<and>
   Title (heap example_world 0) = ''Old Title'' \<and>
   Title (heap (set_Title 0 ''New Title'' example_world) 0) = ''New Title''"
proof -
  have r: "replicate 5001 CHR ''a'' \<noteq> []" by simp
  have t: "''New Title'' = [] \<or> CheckTaskTitle ''New Title'' = None"
    by (simp add: CheckTaskTitle_New_Title)
  show ?thesis
    using UpdateTask_rejected_description [OF example_world_tasks t r CheckTaskDescription_5001]
    by (simp add: example_world_heap set_Title_def)
qed

section \<open>C3: a task created from valid fields is pending, with equal time stamps\<close>

text \<open>
  C3. When the title and the description pass validation, and the clock reads a time
  from 1970 to 2262 (so that the identifier taken from it is not negative),
  \<open>createTask\<close> succeeds, and the task it returns has the status \<open>pending\<close>, equal
  times of creation and of last update, and the given title and description, and is
  stored under its identifier.
\<close>

theorem CreateTask_valid_pending:
  assumes "CheckTaskTitle title = None" and "CheckTaskDescription description = None"
    and "0 \<le> clock w (ticks w)" and "clock w (ticks w) < 2 ^ 63"
  shows "\<exists>task w'. TaskUsecase_CreateTask title description w = (Inr task, w') \<and>
     Status (heap w' task) = StatusPending \<and>
     CreatedAt (heap w' task) = UpdatedAt (heap w' task) \<and>
     Title (heap w' task) = title \<and> Description (heap w' task) = description \<and>
     tasks w' (ID (heap w' task)) = Some task"
  using assms fresh_Task_ID_nonneg [OF assms(3,4), of title description]
  by (simp add: CreateTask_valid) (simp add: fresh_Task_def)

theorem CreateTask_valid_pending_witness:
  "CheckTaskTitle ''Old Title'' = None \<and> CheckTaskDescription ''Old description'' = None \<and>
   0 \<le> clock (initial_world example_clock) (ticks (initial_world example_clock)) \<and>
   clock (initial_world example_clock) (ticks (initial_world example_clock)) < 2 ^ 63 \<and>
   TaskUsecase_CreateTask ''Old Title'' ''Old description'' (initial_world example_clock) =
     (Inr 0, example_world) \<and>
   Status (heap example_world 0) = ''pending'' \<and>
   CreatedAt (heap example_world 0) = UpdatedAt (heap example_world 0)"
proof -
  have c: "0 \<le> clock (initial_world example_clock) (ticks (initial_world example_clock))"
    "clock (initial_world example_clock) (ticks (initial_world example_clock)) < 2 ^ 63"
    by (simp_all add: initial_world_def example_clock_def)
  show ?thesis
    using CreateTask_valid_pending
      [OF CheckTaskTitle_Old_Title CheckTaskDescription_Old_description c] c
    by (simp add: example_world_created CheckTaskTitle_Old_Title
        CheckTaskDescription_Old_description example_world_heap StatusPending_def)
qed

text \<open>
  The assumption on the clock is needed: when the clock reads one millisecond before
  1970 the identifier is \<open>-1\<close>, and the repository refuses it.
\<close>

lemma CreateTask_before_epoch:
  "fst (TaskUsecase_CreateTask ''Old Title'' ''Old description'' (initial_world early_clock)) =
     Inl ErrInvalidID"
  by (simp add: CreateTask_valid CheckTaskTitle_Old_Title CheckTaskDescription_Old_description)
     (simp add: fresh_Task_def initial_world_def early_clock_def UnixNano_def int64_def
        Millisecond_def quo_def)

section \<open>C4: when createTask fails with a validation error\<close>

text \<open>
  C4 lets \<open>createTask\<close> fail with a validation error only when the title is empty,
  has fewer than 3 or more than 200 runes, or has a character that is not a Latin or
  Cyrillic letter, a digit, whitespace or one of five signs, or when the description
  has more than 5000 runes. The code fails on the title \<open>Yolka\<close> with an empty
  description: the title is not empty, it has four runes, and each of them is a
  Cyrillic letter. Its first letter, U+0401, lies outside the two runs of code points
  that the pattern lists for the Russian alphabet; the same word spelled with U+0415
  passes.
\<close>

theorem CreateTask_rejects_Cyrillic_letter_IO:
  "fails_with_Validation (TaskUsecase_CreateTask Yolka [] (initial_world example_clock)) \<and>
   Yolka \<noteq> [] \<and> RuneCountInString Yolka = 4 \<and>
   runes Yolka = [0x401, 0x43B, 0x43A, 0x430] \<and>
   list_all claimed_title_char (runes Yolka) \<and>
   RuneCountInString [] = 0 \<and>
   \<not> fails_with_Validation (TaskUsecase_CreateTask Elka [] (initial_world example_clock))"
proof -
  have y: "CheckTaskTitle Yolka \<noteq> None"
    by (simp add: CheckTaskTitle_None runes_Yolka RuneCountInString_def taskTitleRegex_class_def)
  have e: "CheckTaskTitle Elka = None"
    by (simp add: CheckTaskTitle_None runes_Elka RuneCountInString_def taskTitleRegex_class_def)
  have n: "Yolka \<noteq> []"
    by (simp add: Yolka_def)
  have c: "list_all claimed_title_char (runes Yolka)"
    by (simp add: runes_Yolka claimed_title_char_def Cyrillic_letter_def)
  show ?thesis
    using y e n c
    by (simp add: CreateTask_Validation_iff RuneCountInString_def runes_Yolka)
qed

section \<open>C5: the repository's create\<close>

text \<open>
  C5. The repository's \<open>CreateTask\<close> fails with \<open>ErrInvalidID\<close> if and only if the
  identifier of the task is negative, and then nothing changes. Otherwise it sets both
  time stamps of the task to the reading of the clock, stores the pointer under the
  task's identifier, whatever was stored there before, and returns the pointer.
\<close>

theorem Repository_CreateTask_InvalidID_or_stored:
  "(fst (TaskRepository_CreateTask task w) = Inl ErrInvalidID \<longleftrightarrow> ID (heap w task) < 0) \<and>
   TaskRepository_CreateTask task w =
     (if ID (heap w task) < 0 then (Inl ErrInvalidID, w)
      else (Inr task,
            w\<lparr>heap := (heap w)(task := (heap w task)
                 \<lparr>CreatedAt := clock w (ticks w), UpdatedAt := clock w (ticks w)\<rparr>),
              tasks := (tasks w)(ID (heap w task) \<mapsto> task),
              ticks := Suc (ticks w)\<rparr>))"
  by (simp add: Repository_CreateTask_eq)

text \<open>Two instances: a task with the identifier \<open>-1\<close>, and a task whose identifier
  is already taken, which replaces the stored one.\<close>

theorem Repository_CreateTask_InvalidID_or_stored_witness:
  "TaskRepository_CreateTask 1 (example_world\<lparr>heap := (heap example_world)(1 := negative_task)\<rparr>) =
     (Inl ErrInvalidID, example_world\<lparr>heap := (heap example_world)(1 := negative_task)\<rparr>) \<and>
   tasks example_world 1700000000000 = Some 0 \<and>
   (let (r, w') = TaskRepository_CreateTask 1
          (example_world\<lparr>heap := (heap example_world)(1 := colliding_task)\<rparr>)
    in r = Inr 1 \<and> tasks w' 1700000000000 = Some 1 \<and>
       heap w' 1 = colliding_task\<lparr>CreatedAt := 1700000000000004000,
                                  UpdatedAt := 1700000000000004000\<rparr>)"
  using
    Repository_CreateTask_InvalidID_or_stored
      [of 1 "example_world\<lparr>heap := (heap example_world)(1 := negative_task)\<rparr>"]
    Repository_CreateTask_InvalidID_or_stored
      [of 1 "example_world\<lparr>heap := (heap example_world)(1 := colliding_task)\<rparr>"]
  by (simp add: negative_task_def colliding_task_def example_world_tasks)
     (simp add: example_world_def example_clock_def)

section \<open>C6: listTasks\<close>

text \<open>
  C6. \<open>listTasks\<close> does not fail and changes nothing. Whatever the order \<open>keys\<close>
  in which the loop visits the keys of the map, each key once, the pointers it returns
  are exactly those of the stored tasks whose status equals the filter, or of all
  stored tasks when the filter is empty, one for each such entry of the map.
\<close>

theorem ListTasks_returns_matching:
  "\<exists>res. TaskUsecase_ListTasks keys statusFilter w = (Inr res, w) \<and>
     (distinct keys \<and> set keys = dom (tasks w) \<longrightarrow>
        set res = {a. \<exists>tid. tasks w tid = Some a \<and>
                     (statusFilter = [] \<or> Status (heap w a) = statusFilter)} \<and>
        length res = card {tid. \<exists>a. tasks w tid = Some a \<and>
                     (statusFilter = [] \<or> Status (heap w a) = statusFilter)} \<and>
        (statusFilter = [] \<longrightarrow> set res = ran (tasks w) \<and> length res = card (dom (tasks w))))"
proof -
  let ?res = "range_tasks (tasks w) (heap w) statusFilter keys []"
  have 1: "TaskUsecase_ListTasks keys statusFilter w = (Inr ?res, w)"
    by (rule ListTasks_eq)
  have 2: "set ?res = {a. \<exists>tid. tasks w tid = Some a \<and>
                  (statusFilter = [] \<or> Status (heap w a) = statusFilter)}"
    if "set keys = dom (tasks w)"
    using that by (rule set_range_tasks)
  have 3: "length ?res = card {tid. \<exists>a. tasks w tid = Some a \<and>
                  (statusFilter = [] \<or> Status (heap w a) = statusFilter)}"
    if "distinct keys" "set keys = dom (tasks w)"
    using that by (rule length_range_tasks)
  have 4: "set ?res = ran (tasks w)" if "set keys = dom (tasks w)" "statusFilter = []"
    using that 2 by (auto simp: ran_def)
  have 5: "length ?res = card (dom (tasks w))"
    if "distinct keys" "set keys = dom (tasks w)" "statusFilter = []"
    using that 3 by (simp add: dom_def)
  show ?thesis
    using 1 2 3 4 5 by blast
qed

text \<open>An instance with three stored tasks, visited in the order 3, 1, 2.\<close>

theorem ListTasks_returns_matching_witness:
  "distinct [3, 1, 2 :: int] \<and> set [3, 1, 2] = dom (tasks three_tasks_world) \<and>
   TaskUsecase_ListTasks [3, 1, 2] ''pending'' three_tasks_world = (Inr [2, 0], three_tasks_world) \<and>
   TaskUsecase_ListTasks [3, 1, 2] [] three_tasks_world = (Inr [2, 0, 1], three_tasks_world) \<and>
   card {tid. \<exists>a. tasks three_tasks_world tid = Some a \<and>
           (''pending'' = [] \<or> Status (heap three_tasks_world a) = ''pending'')} = 2 \<and>
   card (dom (tasks three_tasks_world)) = 3"
proof -
  have d: "distinct [3, 1, 2 :: int]" by simp
  have k: "set [3, 1, 2] = dom (tasks three_tasks_world)"
    by (auto simp: three_tasks_world_def)
  have p: "TaskUsecase_ListTasks [3, 1, 2] ''pending'' three_tasks_world = (Inr [2, 0], three_tasks_world)"
    by (simp add: ListTasks_eq three_tasks_world_def StatusPending_def StatusInProgress_def)
  have e: "TaskUsecase_ListTasks [3, 1, 2] [] three_tasks_world = (Inr [2, 0, 1], three_tasks_world)"
    by (simp add: ListTasks_eq three_tasks_world_def)
  show ?thesis
    using ListTasks_returns_matching [of "[3, 1, 2]" "''pending''" three_tasks_world]
      ListTasks_returns_matching [of "[3, 1, 2]" "[]" three_tasks_world] d k
    by (simp add: p e)
qed

section \<open>C7: deleteTask\<close>

text \<open>
  C7. \<open>deleteTask\<close> of a stored identifier succeeds and removes the entry: \<open>getTask\<close>
  then fails with \<open>ErrTaskNotFound\<close>, and every other entry and every task is as
  before. \<open>deleteTask\<close> of an identifier that is not stored fails with
  \<open>ErrTaskNotFound\<close> and changes nothing.
\<close>

theorem DeleteTask_removes_or_NotFound:
  "(tasks w tid = Some a \<longrightarrow>
      (\<exists>w'. TaskUsecase_DeleteTask tid w = (None, w') \<and>
         TaskUsecase_GetTask tid w' = (Inl ErrTaskNotFound, w') \<and>
         tasks w' = (tasks w)(tid := None) \<and>
         (\<forall>other. other \<noteq> tid \<longrightarrow> tasks w' other = tasks w other) \<and>
         heap w' = heap w)) \<and>
   (tasks w tid = None \<longrightarrow> TaskUsecase_DeleteTask tid w = (Some ErrTaskNotFound, w))"
  by (simp add: DeleteTask_eq GetTask_eq)

theorem DeleteTask_removes_or_NotFound_witness:
  "tasks example_world 1700000000000 = Some 0 \<and>
   TaskUsecase_DeleteTask 1700000000000 example_world =
     (None, example_world\<lparr>tasks := Map.empty\<rparr>) \<and>
   TaskUsecase_GetTask 1700000000000 (example_world\<lparr>tasks := Map.empty\<rparr>) =
     (Inl ErrTaskNotFound, example_world\<lparr>tasks := Map.empty\<rparr>) \<and>
   tasks example_world 999 = None \<and>
   TaskUsecase_DeleteTask 999 example_world = (Some ErrTaskNotFound, example_world)"
proof -
  have e: "(tasks example_world)(1700000000000 := None) = Map.empty"
    by (simp add: example_world_def)
  have k: "tasks example_world 999 = None"
    by (simp add: example_world_def)
  have "\<exists>w'. TaskUsecase_DeleteTask 1700000000000 example_world = (None, w') \<and>
         TaskUsecase_GetTask 1700000000000 w' = (Inl ErrTaskNotFound, w') \<and>
         tasks w' = Map.empty \<and> heap w' = heap example_world"
    using DeleteTask_removes_or_NotFound [of example_world 1700000000000 0]
    by (auto simp: example_world_tasks e)
  moreover have "TaskUsecase_DeleteTask 999 example_world = (Some ErrTaskNotFound, example_world)"
    using DeleteTask_removes_or_NotFound [of example_world 999 0] by (simp add: k)
  ultimately show ?thesis
    by (auto simp: example_world_tasks k DeleteTask_eq e)
qed

section \<open>C8: the time of the last update and the time of creation\<close>




section \<open>C9: updateTask with three empty fields\<close>

text \<open>
  C9. For a task stored under \<open>tid\<close> that carries this identifier, \<open>updateTask\<close> with
  an empty title, description and status succeeds and changes nothing but the time of
  the last update of that task, which becomes the reading of the clock that the
  repository takes (and the count of the clock's readings).
\<close>

theorem UpdateTask_all_empty_refreshes_UpdatedAt:
  assumes "tasks w tid = Some a" and "ID (heap w a) = tid"
  shows "TaskUsecase_UpdateTask tid [] [] [] w =
     (Inr a,
      w\<lparr>heap := (heap w)(a := (heap w a)\<lparr>UpdatedAt := clock w (Suc (ticks w))\<rparr>),
        ticks := Suc (Suc (ticks w))\<rparr>)"
  using assms by (simp add: UpdateTask_merged)

theorem UpdateTask_all_empty_refreshes_UpdatedAt_witness:
  "tasks example_world 1700000000000 = Some 0 \<and> ID (heap example_world 0) = 1700000000000 \<and>
   (let (r, w') = TaskUsecase_UpdateTask 1700000000000 [] [] [] example_world
    in r = Inr 0 \<and>
       heap w' 0 = \<lparr>ID = 1700000000000, Title = ''Old Title'', Description = ''Old description'',
               Status = ''pending'', CreatedAt = 1700000000000003000,
               UpdatedAt = 1700000000000005000\<rparr> \<and>
       tasks w' = tasks example_world)"
  using UpdateTask_all_empty_refreshes_UpdatedAt [of example_world 1700000000000 0]
  by (simp add: example_world_tasks example_world_heap)
     (simp add: example_world_def example_clock_def StatusPending_def)

section \<open>C10: no operation but create returns ErrInvalidID\<close>

text \<open>
  C10. In every world, \<open>getTask\<close>, \<open>listTasks\<close>, \<open>updateTask\<close> and \<open>deleteTask\<close> never
  return \<open>ErrInvalidID\<close>; on an identifier that is not a key of the map, negative or
  not, \<open>getTask\<close>, \<open>updateTask\<close> and \<open>deleteTask\<close> fail with \<open>ErrTaskNotFound\<close> and
  change nothing; and in a reachable world no negative identifier is a key.
\<close>

theorem InvalidID_only_from_create:
  "fst (TaskUsecase_GetTask tid w) \<noteq> Inl ErrInvalidID \<and>
   fst (TaskUsecase_ListTasks keys statusFilter w) \<noteq> Inl ErrInvalidID \<and>
   fst (TaskUsecase_UpdateTask tid newTitle newDescription status w) \<noteq> Inl ErrInvalidID \<and>
   fst (TaskUsecase_DeleteTask tid w) \<noteq> Some ErrInvalidID \<and>
   (tasks w tid = None \<longrightarrow>
      TaskUsecase_GetTask tid w = (Inl ErrTaskNotFound, w) \<and>
      TaskUsecase_UpdateTask tid newTitle newDescription status w = (Inl ErrTaskNotFound, w) \<and>
      TaskUsecase_DeleteTask tid w = (Some ErrTaskNotFound, w)) \<and>
   (reachable w \<and> tid < 0 \<longrightarrow> tasks w tid = None)"
proof -
  have "fst (TaskUsecase_GetTask tid w) \<noteq> Inl ErrInvalidID"
    by (simp add: GetTask_eq split: option.splits)
  moreover have "fst (TaskUsecase_ListTasks keys statusFilter w) \<noteq> Inl ErrInvalidID"
    by (simp add: ListTasks_eq)
  moreover have "fst (TaskUsecase_DeleteTask tid w) \<noteq> Some ErrInvalidID"
    by (simp add: DeleteTask_eq split: option.splits)
  moreover have "tasks w tid = None" if "reachable w" "tid < 0"
    using reachable_invariants [OF that(1)] that(2) by (simp add: keys_nonneg_def)
  ultimately show ?thesis
    by (simp add: UpdateTask_not_InvalidID UpdateTask_not_found GetTask_eq DeleteTask_eq)
qed

theorem InvalidID_only_from_create_witness:
  "reachable example_world \<and> (- 5 :: int) < 0 \<and> tasks example_world (- 5) = None \<and>
   TaskUsecase_GetTask (- 5) example_world = (Inl ErrTaskNotFound, example_world) \<and>
   TaskUsecase_UpdateTask (- 5) ''New Title'' [] [] example_world =
     (Inl ErrTaskNotFound, example_world) \<and>
   TaskUsecase_DeleteTask (- 5) example_world = (Some ErrTaskNotFound, example_world)"
  using InvalidID_only_from_create [where tid = "- 5" and w = example_world and newTitle = "''New Title''"
      and newDescription = "[]" and status = "[]" and keys = "[]" and statusFilter = "[]"]
    reachable_example_world
  by simp

end
